theory Spec2Isabelle
  imports Main "HOL-Library.Sublist"
begin

section \<open>Python strings\<close>

text \<open>
  A Python \<open>str\<close> is modelled as a \<open>string\<close> whose characters are the code points
  U+0000 to U+00FF. On that range \<open>str.strip()\<close>, \<open>str.lower()\<close>, \<open>str.replace\<close>
  and \<open>str.join\<close> are modelled exactly as CPython computes them.
\<close>

definition is_space :: "char \<Rightarrow> bool" where
  \<comment> \<open>The characters \<open>str.strip()\<close> removes: TAB to CR, FS to US, SPACE, NEL and NBSP.\<close>
  "is_space c =
     (let n = (of_char c :: nat)
      in (9 \<le> n \<and> n \<le> 13) \<or> (28 \<le> n \<and> n \<le> 32) \<or> n = 133 \<or> n = 160)"

definition py_strip :: "string \<Rightarrow> string" where
  "py_strip s = rev (dropWhile is_space (rev (dropWhile is_space s)))"

definition lower_char :: "char \<Rightarrow> char" where
  \<comment> \<open>\<open>A\<close>-\<open>Z\<close> and the Latin-1 capitals U+00C0 to U+00DE (U+00D7 is the multiplication sign).\<close>
  "lower_char c =
     (let n = (of_char c :: nat)
      in if 65 \<le> n \<and> n \<le> 90 then char_of (n + 32)
         else if n = 215 then c
         else if 192 \<le> n \<and> n \<le> 222 then char_of (n + 32)
         else c)"

definition py_lower :: "string \<Rightarrow> string" where
  "py_lower s = map lower_char s"

text \<open>
  \<open>s.replace(old, new)\<close> for a non-empty \<open>old\<close>: the occurrences are found from the
  left and do not overlap. For an empty \<open>old\<close>, Python puts \<open>new\<close> before every
  character and at the end.
\<close>

function replace_ne :: "string \<Rightarrow> string \<Rightarrow> string \<Rightarrow> string" where
  "replace_ne old new [] = []"
| "replace_ne old new (c # cs) =
     (if old \<noteq> [] \<and> prefix old (c # cs)
      then new @ replace_ne old new (drop (length old) (c # cs))
      else c # replace_ne old new cs)"
  by pat_completeness auto
termination
  by (relation "measure (\<lambda>(old, new, s). length s)") auto

definition py_replace :: "string \<Rightarrow> string \<Rightarrow> string \<Rightarrow> string" where
  "py_replace s old new =
     (if old = [] then new @ concat (map (\<lambda>c. c # new) s) else replace_ne old new s)"

text \<open>The number of occurrences \<open>replace_ne\<close> finds: leftmost first, not overlapping.\<close>

function count_occ :: "string \<Rightarrow> string \<Rightarrow> nat" where
  "count_occ old [] = 0"
| "count_occ old (c # cs) =
     (if old \<noteq> [] \<and> prefix old (c # cs)
      then Suc (count_occ old (drop (length old) (c # cs)))
      else count_occ old cs)"
  by pat_completeness auto
termination
  by (relation "measure (\<lambda>(old, s). length s)") auto

section \<open>Errors\<close>

datatype py_error =
    ValueError string
  | KeyError string
  | IndexError
  | AttributeError string
  | TypeError
  | UnsupportedField

text \<open>
  \<open>ValueError\<close> carries its message, \<open>KeyError\<close> the missing key and
  \<open>AttributeError\<close> the name of the attribute that was never assigned.
  \<open>UnsupportedField\<close> is not a Python exception: it marks a replacement field that
  uses a conversion (\<open>!r\<close>), a format spec (\<open>:>10\<close>) or an attribute or index
  access (\<open>{a.b}\<close>, \<open>{a[0]}\<close>), which this model of \<open>str.format\<close> does not
  evaluate.
\<close>

definition bind_err :: "py_error + 'a \<Rightarrow> ('a \<Rightarrow> py_error + 'b) \<Rightarrow> py_error + 'b" where
  "bind_err m f = (case m of Inl e \<Rightarrow> Inl e | Inr x \<Rightarrow> f x)"

definition attr :: "string \<Rightarrow> 'a option \<Rightarrow> py_error + 'a" where
  \<comment> \<open>Reading an instance attribute that may never have been assigned.\<close>
  "attr name v = (case v of None \<Rightarrow> Inl (AttributeError name) | Some x \<Rightarrow> Inr x)"

section \<open>\<open>str.format\<close> with keyword arguments\<close>

type_synonym kwargs = "(string \<times> string) list"

text \<open>
  The field name runs to the first \<open>}\<close>, \<open>:\<close> or \<open>!\<close>; a \<open>[\<close> skips to the next
  \<open>]\<close>; a \<open>{\<close> inside it is an error; so is the end of the string. The result is
  the name, the terminator and the rest of the template.
\<close>

function scan_field :: "string \<Rightarrow> string \<Rightarrow> py_error + (string \<times> char \<times> string)" where
  "scan_field acc [] = Inl (ValueError ''expected } before end of string'')"
| "scan_field acc (c # cs) =
     (if c = CHR ''{'' then Inl (ValueError ''unexpected { in field name'')
      else if c = CHR ''[''
        then scan_field (acc @ c # takeWhile (\<lambda>d. d \<noteq> CHR '']'') cs)
               (dropWhile (\<lambda>d. d \<noteq> CHR '']'') cs)
      else if c = CHR ''}'' \<or> c = CHR '':'' \<or> c = CHR ''!'' then Inr (acc, c, cs)
      else scan_field (acc @ [c]) cs)"
  by pat_completeness auto
termination
  by (relation "measure (\<lambda>(acc, s). length s)")
     (auto simp: le_imp_less_Suc length_dropWhile_le)

definition is_digit :: "char \<Rightarrow> bool" where
  "is_digit c = (let n = (of_char c :: nat) in 48 \<le> n \<and> n \<le> 57)"

definition decimal :: "string \<Rightarrow> nat" where
  "decimal ds = foldl (\<lambda>a c. 10 * a + (of_char c - 48)) 0 ds"

definition lookup_field :: "kwargs \<Rightarrow> string \<Rightarrow> py_error + string" where
  \<comment> \<open>An empty or numeric first part indexes the positional arguments, of which there
      are none. \<open>PY_SSIZE_T_MAX\<close> is that of a 64-bit build.\<close>
  "lookup_field kw name =
     (let first = takeWhile (\<lambda>c. c \<noteq> CHR ''.'' \<and> c \<noteq> CHR ''['') name;
          rest = drop (length first) name
      in if first = [] then Inl IndexError
         else if list_all is_digit first
           then (if decimal first > 2 ^ 63 - 1
                 then Inl (ValueError ''Too many decimal digits in format string'')
                 else Inl IndexError)
         else (case map_of kw first of
                 None \<Rightarrow> Inl (KeyError first)
               | Some v \<Rightarrow> if rest = [] then Inr v else Inl UnsupportedField))"

lemma scan_field_shorter:
  "scan_field acc s = Inr (name, t, rest) \<Longrightarrow> length rest < length s"
proof (induction acc s rule: scan_field.induct)
  case (1 acc)
  then show ?case by simp
next
  case (2 acc c cs)
  have "length (dropWhile (\<lambda>d. d \<noteq> CHR '']'') cs) \<le> length cs"
    by (rule length_dropWhile_le)
  with 2 show ?case
    by (auto split: if_splits)
qed

function format_aux :: "kwargs \<Rightarrow> string \<Rightarrow> py_error + string" where
  "format_aux kw [] = Inr []"
| "format_aux kw (c # cs) =
     (if c = CHR ''}'' then
        (case cs of
           [] \<Rightarrow> Inl (ValueError ''Single } encountered in format string'')
         | d # ds \<Rightarrow>
             if d = CHR ''}'' then bind_err (format_aux kw ds) (\<lambda>r. Inr (c # r))
             else Inl (ValueError ''Single } encountered in format string''))
      else if c = CHR ''{'' then
        (case cs of
           [] \<Rightarrow> Inl (ValueError ''Single { encountered in format string'')
         | d # ds \<Rightarrow>
             if d = CHR ''{'' then bind_err (format_aux kw ds) (\<lambda>r. Inr (c # r))
             else
               (case scan_field [] cs of
                  Inl e \<Rightarrow> Inl e
                | Inr (name, t, rest) \<Rightarrow>
                    if t = CHR ''}'' then
                      (case lookup_field kw name of
                         Inl e \<Rightarrow> Inl e
                       | Inr v \<Rightarrow> bind_err (format_aux kw rest) (\<lambda>r. Inr (v @ r)))
                    else Inl UnsupportedField))
      else bind_err (format_aux kw cs) (\<lambda>r. Inr (c # r)))"
  by pat_completeness auto
termination
  by (relation "measure (\<lambda>(kw, s). length s)")
     (auto simp del: scan_field.simps dest!: scan_field_shorter)

definition format :: "string \<Rightarrow> kwargs \<Rightarrow> py_error + string" where
  \<comment> \<open>\<open>template.format(**kw)\<close>\<close>
  "format template kw = format_aux kw template"

section \<open>The prompt generator\<close>

text \<open>
  An entry of \<open>prompt_templates.json\<close>: the four strings \<open>load_template\<close> reads from
  it. The file itself is not part of the sources; the store is the dictionary that
  \<open>json.load\<close> returns, as the list of its items.
\<close>

record template =
  t_system :: string
  t_user :: string
  t_response :: string
  t_input :: string

text \<open>An element of \<open>self.conversation\<close>: a rendered string, or a role/content dictionary.\<close>

datatype turn = Str string | Rec string string

text \<open>
  The instance. \<open>__init__\<close> assigns \<open>model_name\<close>, \<open>model_templates\<close>,
  \<open>conversation\<close> and \<open>system_text\<close>; the other six attributes exist only once
  \<open>load_template\<close> or \<open>custom_template\<close> has assigned them, and reading one before
  that raises \<open>AttributeError\<close>.
\<close>

record prompt_generator =
  model_name :: string
  model_templates :: "(string \<times> template) list"
  conversation :: "turn list"
  system_text :: string
  model_prompt_helper :: "string option"
  user_prompt_helper :: "string option"
  system_prompt_helper :: "string option"
  input_prompt_helper :: "string option"
  template_name :: "string option"
  is_llama_2 :: "bool option"

definition init :: "string \<Rightarrow> (string \<times> template) list \<Rightarrow> prompt_generator" where
  \<comment> \<open>\<open>PromptGenerator(model_name)\<close>, with the templates the configuration file holds.\<close>
  "init name templates =
     \<lparr>model_name = name, model_templates = templates, conversation = [], system_text = [],
      model_prompt_helper = None, user_prompt_helper = None, system_prompt_helper = None,
      input_prompt_helper = None, template_name = None, is_llama_2 = None\<rparr>"

definition len :: "prompt_generator \<Rightarrow> nat" where
  "len s = length (conversation s)"

text \<open>
  Every method returns the exception it raised, if any, together with the instance as
  the method left it: an assignment made before the \<open>raise\<close> stays.
\<close>

definition load_template :: "prompt_generator \<Rightarrow> string \<Rightarrow> py_error option \<times> prompt_generator" where
  "load_template s template =
     (let template = py_lower template
      in case map_of (model_templates s) template of
           Some t \<Rightarrow>
             (None,
              s\<lparr>model_prompt_helper := Some (t_response t),
                user_prompt_helper := Some (t_user t),
                system_prompt_helper := Some (t_system t),
                input_prompt_helper := Some (t_input t),
                template_name := Some template,
                is_llama_2 := Some (template = ''llama-2-chat'')\<rparr>)
         | None \<Rightarrow> (Some (ValueError ''Template not found.''), s))"

definition custom_template ::
  "prompt_generator \<Rightarrow> string \<Rightarrow> string \<Rightarrow> string \<Rightarrow> string \<Rightarrow> prompt_generator" where
  "custom_template s system_template response_template user_template input_template =
     s\<lparr>model_prompt_helper := Some response_template,
       user_prompt_helper := Some user_template,
       system_prompt_helper := Some system_template,
       input_prompt_helper := Some input_template\<rparr>"

definition append_turn :: "prompt_generator \<Rightarrow> py_error + turn \<Rightarrow> py_error option \<times> prompt_generator" where
  \<comment> \<open>\<open>self.conversation.append(e)\<close>: the argument \<open>e\<close> is evaluated first, and an
      exception there leaves the list as it was.\<close>
  "append_turn s e =
     (case e of
        Inl err \<Rightarrow> (Some err, s)
      | Inr t \<Rightarrow> (None, s\<lparr>conversation := conversation s @ [t]\<rparr>))"

definition set_system_prompt :: "prompt_generator \<Rightarrow> string \<Rightarrow> py_error option \<times> prompt_generator" where
  "set_system_prompt s txt =
     (let s1 = s\<lparr>conversation := [], system_text := txt\<rparr>
      in case attr ''template_name'' (template_name s1) of
           Inl err \<Rightarrow> (Some err, s1)
         | Inr tn \<Rightarrow>
             if tn = ''openai'' then
               append_turn s1
                 (bind_err (attr ''system_prompt_helper'' (system_prompt_helper s1))
                    (\<lambda>h. Inr (Rec h (system_text s1))))
             else
               append_turn s1
                 (bind_err (attr ''system_prompt_helper'' (system_prompt_helper s1))
                    (\<lambda>h. bind_err (format h [(''system'', py_strip (system_text s1))])
                       (\<lambda>r. Inr (Str r)))))"

definition user_turn :: "prompt_generator \<Rightarrow> string \<Rightarrow> string \<Rightarrow> py_error option \<times> prompt_generator" where
  \<comment> \<open>The branch \<open>role.lower() == "user"\<close> of \<open>add_to_conversation\<close>; \<open>combined\<close> is
      \<open>preprompt.strip() + text.strip()\<close>.\<close>
  "user_turn s combined inp =
     (case (if length (conversation s) = 1 then attr ''is_llama_2'' (is_llama_2 s)
            else Inr False) of
        Inl err \<Rightarrow> (Some err, s)
      | Inr True \<Rightarrow>
          append_turn s
            (bind_err (attr ''user_prompt_helper'' (user_prompt_helper s))
               (\<lambda>h. bind_err (format h [(''prompt'', combined)])
                  (\<lambda>r. Inr (Str (py_replace r '' [INST]'' [])))))
      | Inr False \<Rightarrow>
          (case attr ''template_name'' (template_name s) of
             Inl err \<Rightarrow> (Some err, s)
           | Inr tn \<Rightarrow>
               if tn = ''openai'' then
                 append_turn s
                   (bind_err (attr ''user_prompt_helper'' (user_prompt_helper s))
                      (\<lambda>h. Inr (Rec h combined)))
               else if inp \<noteq> [] \<and> tn = ''alpaca'' then
                 append_turn s
                   (bind_err (attr ''input_prompt_helper'' (input_prompt_helper s))
                      (\<lambda>h. bind_err (format h [(''prompt'', combined)])
                         (\<lambda>r. Inr (Str r))))
               else
                 append_turn s
                   (bind_err (attr ''user_prompt_helper'' (user_prompt_helper s))
                      (\<lambda>h. bind_err (format h
                                       [(''prompt'', combined), (''input'', py_strip inp)])
                         (\<lambda>r. Inr (Str r))))))"

definition model_turn :: "prompt_generator \<Rightarrow> string \<Rightarrow> py_error option \<times> prompt_generator" where
  \<comment> \<open>The branch \<open>role.lower() == "model"\<close> of \<open>add_to_conversation\<close>.\<close>
  "model_turn s combined =
     (case attr ''template_name'' (template_name s) of
        Inl err \<Rightarrow> (Some err, s)
      | Inr tn \<Rightarrow>
          if tn = ''openai'' then
            append_turn s
              (bind_err (attr ''model_prompt_helper'' (model_prompt_helper s))
                 (\<lambda>h. Inr (Rec h combined)))
          else
            append_turn s
              (bind_err (attr ''model_prompt_helper'' (model_prompt_helper s))
                 (\<lambda>h. bind_err (format h [(''response'', combined)])
                    (\<lambda>r. Inr (Str r)))))"

definition add_to_conversation ::
  "prompt_generator \<Rightarrow> string \<Rightarrow> string \<Rightarrow> string \<Rightarrow> string \<Rightarrow> py_error option \<times> prompt_generator" where
  \<comment> \<open>\<open>add_to_conversation(role, text, preprompt, input)\<close>; a role that is none of the
      three falls through the \<open>if\<close>/\<open>elif\<close> chain and the method returns.\<close>
  "add_to_conversation s role text preprompt inp =
     (if role \<noteq> ''user'' \<and> inp \<noteq> [] then
        (Some (ValueError ''Input parameter can only be used with user role''), s)
      else if py_lower role = ''system'' then
        set_system_prompt s (py_strip preprompt @ py_strip text)
      else if py_lower role = ''user'' then
        user_turn s (py_strip preprompt @ py_strip text) inp
      else if py_lower role = ''model'' then
        model_turn s (py_strip preprompt @ py_strip text)
      else (None, s))"

definition clear_conversation :: "prompt_generator \<Rightarrow> prompt_generator" where
  "clear_conversation s = s\<lparr>conversation := take 1 (conversation s)\<rparr>"

definition slice_from :: "int \<Rightarrow> 'a list \<Rightarrow> 'a list" where
  \<comment> \<open>The slice \<open>xs[i:]\<close>: a negative \<open>i\<close> counts from the end and is clamped at the
      start of the list.\<close>
  "slice_from i xs =
     (if i < 0 then drop (nat (int (length xs) + i)) xs else drop (nat i) xs)"

definition reduce_length :: "prompt_generator \<Rightarrow> int \<Rightarrow> prompt_generator" where
  "reduce_length s conv =
     (let couple = conv * 2 - 1;
          couple = (if int (length (conversation s)) < couple
                    then int (length (conversation s)) - 1 else couple)
      in s\<lparr>conversation := take 1 (conversation s) @ slice_from (- couple) (conversation s)\<rparr>)"

definition generate_one_shot_prompt ::
  "prompt_generator \<Rightarrow> string \<Rightarrow> string \<Rightarrow> string \<Rightarrow> string \<Rightarrow> (py_error + string) \<times> prompt_generator" where
  "generate_one_shot_prompt s user_prompt preprompt system_prompt inp =
     (let s1 = (if system_prompt \<noteq> [] then s\<lparr>system_text := py_strip system_prompt\<rparr> else s)
      in (if model_name s1 = ''alpaca'' \<and> inp \<noteq> [] then
            bind_err (attr ''system_prompt_helper'' (system_prompt_helper s1))
              (\<lambda>sh. bind_err (format sh [(''system'', py_strip (system_text s1))])
                 (\<lambda>a. bind_err (attr ''input_prompt_helper'' (input_prompt_helper s1))
                    (\<lambda>ih. bind_err (format ih
                                      [(''prompt'', py_strip preprompt @ py_strip user_prompt),
                                       (''input'', py_strip inp)])
                       (\<lambda>b. Inr (py_strip (a @ b))))))
          else
            bind_err (attr ''system_prompt_helper'' (system_prompt_helper s1))
              (\<lambda>sh. bind_err (format sh [(''system'', py_strip (system_text s1))])
                 (\<lambda>a. bind_err (attr ''user_prompt_helper'' (user_prompt_helper s1))
                    (\<lambda>uh. bind_err (format uh
                                      [(''prompt'', py_strip preprompt @ py_strip user_prompt)])
                       (\<lambda>b. Inr (py_strip (a @ b)))))),
          s1))"

text \<open>\<open>"".join(xs)\<close> raises \<open>TypeError\<close> at an element that is not a string.\<close>

fun join :: "turn list \<Rightarrow> py_error + string" where
  "join [] = Inr []"
| "join (Str x # xs) = bind_err (join xs) (\<lambda>r. Inr (x @ r))"
| "join (Rec r c # xs) = Inl TypeError"

datatype prompt = Text string | Messages "turn list"

definition generate_prompt :: "prompt_generator \<Rightarrow> py_error + prompt" where
  "generate_prompt s =
     bind_err (attr ''template_name'' (template_name s))
       (\<lambda>tn. if tn = ''openai'' then Inr (Messages (conversation s))
              else bind_err (join (conversation s)) (\<lambda>r. Inr (Text (py_strip r))))"

section \<open>Sessions\<close>

text \<open>
  A caller's script: the next call is made on the instance the previous one left, and
  an exception that nobody catches ends the script.
\<close>

definition seq ::
  "py_error option \<times> prompt_generator \<Rightarrow>
   (prompt_generator \<Rightarrow> py_error option \<times> prompt_generator) \<Rightarrow>
   py_error option \<times> prompt_generator" where
  "seq r f = (case r of (None, s) \<Rightarrow> f s | (Some e, s) \<Rightarrow> (Some e, s))"

definition newline :: string where
  "newline = [CHR 0x0A]"

definition vicuna :: "string \<Rightarrow> template" where
  \<comment> \<open>The example of \<open>custom_template\<close>'s docstring; the scenario leaves the \<open>input\<close>
      sub-template open.\<close>
  "vicuna it =
     \<lparr>t_system = ''{system}'' @ newline,
      t_user = ''USER: {prompt}'' @ newline @ ''ASSISTANT:'',
      t_response = '' {response}</s>'',
      t_input = it\<rparr>"

definition scenario_A ::
  "string \<Rightarrow> string \<Rightarrow> (string \<times> template) list \<Rightarrow> py_error option \<times> prompt_generator" where
  "scenario_A name it others =
     seq (seq (seq (load_template (init name ((''vicuna'', vicuna it) # others)) ''vicuna'')
                 (\<lambda>s. set_system_prompt s ''You are helpful.''))
            (\<lambda>s. add_to_conversation s ''user'' ''Hi'' [] []))
       (\<lambda>s. add_to_conversation s ''model'' ''Hello!'' [] [])"

text \<open>
  Two further entries a store may hold, in the shapes their formats are known by: an
  instruction template whose \<open>input\<close> sub-template has the placeholders \<open>{prompt}\<close>
  and \<open>{input}\<close>, and a bracketed one whose user sub-template opens with \<open>" [INST]"\<close>.
\<close>

definition alpaca :: template where
  "alpaca =
     \<lparr>t_system = ''{system}'' @ newline @ newline,
      t_user = ''### Instruction:'' @ newline @ ''{prompt}'' @ newline @ newline
                 @ ''### Response:'' @ newline,
      t_response = ''{response}'' @ newline @ newline,
      t_input = ''### Instruction:'' @ newline @ ''{prompt}'' @ newline @ newline
                 @ ''### Input:'' @ newline @ ''{input}'' @ newline @ newline
                 @ ''### Response:'' @ newline\<rparr>"

definition alpaca_session :: "string \<Rightarrow> py_error option \<times> prompt_generator" where
  "alpaca_session name =
     seq (load_template (init name [(''alpaca'', alpaca)]) ''Alpaca'')
       (\<lambda>s. set_system_prompt s ''Be brief.'')"

definition llama_2_chat :: template where
  "llama_2_chat =
     \<lparr>t_system = ''[INST] <<SYS>>'' @ newline @ ''{system}'' @ newline @ ''<</SYS>>''
                   @ newline @ newline,
      t_user = '' [INST] {prompt} [/INST]'',
      t_response = '' {response} '',
      t_input = []\<rparr>"

definition llama_session :: "py_error option \<times> prompt_generator" where
  "llama_session =
     seq (load_template (init ''gpt2'' [(''llama-2-chat'', llama_2_chat)]) ''Llama-2-Chat'')
       (\<lambda>s. set_system_prompt s ''Be brief.'')"

definition llama_later :: "py_error option \<times> prompt_generator" where
  "llama_later =
     seq (seq llama_session (\<lambda>s. add_to_conversation s ''user'' ''Hi'' [] []))
       (\<lambda>s. add_to_conversation s ''model'' ''Hello!'' [] [])"

section \<open>Scenario A: a rendered conversation\<close>

text \<open>
  C1. With the template \<open>vicuna\<close> selected, \<open>set_system_prompt("You are helpful.")\<close>,
  a user turn \<open>Hi\<close> and a model turn \<open>Hello!\<close> raise nothing, leave the three
  turns rendered through their sub-templates in order, and \<open>generate_prompt()\<close>
  returns their concatenation, stripped:
  \<open>You are helpful.\nUSER: Hi\nASSISTANT: Hello!</s>\<close>. This holds whatever the
  model name, the \<open>input\<close> sub-template and the other templates of the store are.
\<close>

theorem scenario_A_prompt:
  "fst (scenario_A name it others) = None \<and>
   conversation (snd (scenario_A name it others)) =
     [Str (''You are helpful.'' @ newline),
      Str (''USER: Hi'' @ newline @ ''ASSISTANT:''),
      Str '' Hello!</s>''] \<and>
   generate_prompt (snd (scenario_A name it others)) =
     Inr (Text (''You are helpful.'' @ newline @ ''USER: Hi'' @ newline @ ''ASSISTANT: Hello!</s>''))"
  by code_simp

section \<open>Replacing a marker\<close>

lemma prefix_shorter_butlast:
  assumes "prefix us (p @ y)" and "length us < length p"
  shows "prefix us (butlast p)"
proof -
  from assms have a: "prefix us p"
    by (auto simp: prefix_append)
  from assms(2) have "p \<noteq> []" by auto
  then have b: "butlast p @ [last p] = p" by simp
  from a have "prefix us (butlast p @ [last p])"
    by (simp only: b)
  then have "us = butlast p @ [last p] \<or> prefix us (butlast p)"
    by (simp only: prefix_snoc)
  moreover from assms(2) have "us \<noteq> butlast p @ [last p]"
    by (auto simp only: b)
  ultimately show ?thesis by blast
qed

lemma prefix_overlap:
  assumes "x \<noteq> []" and "prefix p (x @ p @ y)"
  shows "prefix p (x @ butlast p)"
proof (cases "prefix p x")
  case True
  then show ?thesis by (rule prefix_prefix)
next
  case False
  with assms(2) obtain us where us: "x @ us = p" and pre: "prefix us (p @ y)"
    by (auto simp: prefix_append)
  from us have "length p = length x + length us"
    by (metis length_append)
  with assms(1) have "length us < length p"
    by simp
  with pre have "prefix us (butlast p)"
    by (rule prefix_shorter_butlast)
  then have "prefix (x @ us) (x @ butlast p)"
    by (simp only: same_prefix_prefix)
  then show ?thesis
    by (simp only: us)
qed

text \<open>
  Up to the first occurrence of \<open>p\<close> the string is kept, the occurrence becomes \<open>new\<close>,
  and the replacement goes on behind it.
\<close>

lemma replace_ne_first:
  assumes "p \<noteq> []" and "\<not> sublist p (x @ butlast p)"
  shows "replace_ne p new (x @ p @ y) = x @ new @ replace_ne p new y"
  using assms(2)
proof (induction x)
  case Nil
  from assms(1) obtain c cs where p: "p = c # cs" by (cases p) auto
  have "replace_ne p new (p @ y) = new @ replace_ne p new (drop (length p) (p @ y))"
    unfolding p by simp
  then show ?case by simp
next
  case (Cons c x)
  have np: "\<not> prefix p ((c # x) @ p @ y)"
  proof
    assume "prefix p ((c # x) @ p @ y)"
    then have "prefix p ((c # x) @ butlast p)"
      by (rule prefix_overlap [rotated]) simp
    with Cons.prems show False by auto
  qed
  from Cons.prems have "\<not> sublist p (x @ butlast p)"
    by (simp add: sublist_Cons_right)
  with Cons.IH have "replace_ne p new (x @ p @ y) = x @ new @ replace_ne p new y" .
  with np show ?case by simp
qed

lemma replace_ne_absent: "\<not> sublist p s \<Longrightarrow> replace_ne p new s = s"
  by (induction s) (auto simp: sublist_Cons_right)

text \<open>Each occurrence found shortens the string by the length of \<open>p\<close>.\<close>

lemma replace_ne_length:
  "length (replace_ne p [] s) + length p * count_occ p s = length s"
proof (induction p "[] :: string" s rule: replace_ne.induct)
  case (1 old)
  show ?case by simp
next
  case (2 old c cs)
  show ?case
  proof (cases "old \<noteq> [] \<and> prefix old (c # cs)")
    case True
    then have "length old \<le> length (c # cs)"
      using prefix_length_le [of old "c # cs"] by simp
    with True 2(1) show ?thesis by simp
  next
    case False
    with 2(2) show ?thesis by auto
  qed
qed

lemma py_replace_first:
  assumes "p \<noteq> []" and "\<not> sublist p (x @ butlast p)"
  shows "py_replace (x @ p @ y) p new = x @ new @ py_replace y p new"
  using assms by (simp add: py_replace_def replace_ne_first)

lemma py_replace_absent: "p \<noteq> [] \<Longrightarrow> \<not> sublist p s \<Longrightarrow> py_replace s p new = s"
  by (simp add: py_replace_def replace_ne_absent)

lemma lower_user: "py_lower ''user'' = ''user''"
  by code_simp

section \<open>The first user turn of \<open>llama-2-chat\<close>\<close>

lemma load_template_llama_2_chat:
  assumes "py_lower name = ''llama-2-chat''"
    and "map_of (model_templates s) ''llama-2-chat'' = Some t"
  shows "load_template s name =
     (None,
      s\<lparr>model_prompt_helper := Some (t_response t),
        user_prompt_helper := Some (t_user t),
        system_prompt_helper := Some (t_system t),
        input_prompt_helper := Some (t_input t),
        template_name := Some ''llama-2-chat'',
        is_llama_2 := Some True\<rparr>)"
  using assms by (simp add: load_template_def)

text \<open>
  C2. With \<open>llama-2-chat\<close> bound (\<open>load_template\<close> has set \<open>template_name\<close> to it and
  \<open>is_llama_2\<close> to true) and \<open>u\<close> the user sub-template: a user turn added while the
  conversation has exactly one element appends \<open>u\<close> formatted with the combined text,
  with \<open>" [INST]"\<close> replaced by the empty string; a user turn added at any other
  length appends \<open>u\<close> formatted, unmodified.
\<close>

theorem llama_first_user_turn:
  assumes "is_llama_2 s = Some True"
    and "template_name s = Some ''llama-2-chat''"
    and "user_prompt_helper s = Some u"
  shows
    "(length (conversation s) = 1 \<and>
      format u [(''prompt'', py_strip preprompt @ py_strip text)] = Inr r \<longrightarrow>
        add_to_conversation s ''user'' text preprompt inp =
          (None, s\<lparr>conversation := conversation s @ [Str (py_replace r '' [INST]'' [])]\<rparr>)) \<and>
     (length (conversation s) \<noteq> 1 \<and>
      format u [(''prompt'', py_strip preprompt @ py_strip text), (''input'', py_strip inp)]
        = Inr r' \<longrightarrow>
        add_to_conversation s ''user'' text preprompt inp =
          (None, s\<lparr>conversation := conversation s @ [Str r']\<rparr>))"
  using assms
  by (simp add: add_to_conversation_def user_turn_def append_turn_def bind_err_def attr_def
      lower_user)

theorem llama_first_user_turn_witness:
  "is_llama_2 (snd llama_session) = Some True \<and>
   template_name (snd llama_session) = Some ''llama-2-chat'' \<and>
   user_prompt_helper (snd llama_session) = Some '' [INST] {prompt} [/INST]'' \<and>
   length (conversation (snd llama_session)) = 1 \<and>
   format '' [INST] {prompt} [/INST]'' [(''prompt'', py_strip [] @ py_strip ''Hi'')] =
     Inr '' [INST] Hi [/INST]'' \<and>
   add_to_conversation (snd llama_session) ''user'' ''Hi'' [] [] =
     (None, (snd llama_session)\<lparr>conversation :=
        conversation (snd llama_session) @ [Str '' Hi [/INST]'']\<rparr>) \<and>
   is_llama_2 (snd llama_later) = Some True \<and>
   template_name (snd llama_later) = Some ''llama-2-chat'' \<and>
   user_prompt_helper (snd llama_later) = Some '' [INST] {prompt} [/INST]'' \<and>
   length (conversation (snd llama_later)) = 3 \<and>
   format '' [INST] {prompt} [/INST]''
     [(''prompt'', py_strip [] @ py_strip ''Again''), (''input'', py_strip [])] =
     Inr '' [INST] Again [/INST]'' \<and>
   add_to_conversation (snd llama_later) ''user'' ''Again'' [] [] =
     (None, (snd llama_later)\<lparr>conversation :=
        conversation (snd llama_later) @ [Str '' [INST] Again [/INST]'']\<rparr>)"
proof -
  have a1: "is_llama_2 (snd llama_session) = Some True" by code_simp
  have a2: "template_name (snd llama_session) = Some ''llama-2-chat''" by code_simp
  have a3: "user_prompt_helper (snd llama_session) = Some '' [INST] {prompt} [/INST]''"
    by code_simp
  have a4: "length (conversation (snd llama_session)) = 1" by code_simp
  have a5: "format '' [INST] {prompt} [/INST]'' [(''prompt'', py_strip [] @ py_strip ''Hi'')] =
     Inr '' [INST] Hi [/INST]''" by code_simp
  have a6: "py_replace '' [INST] Hi [/INST]'' '' [INST]'' [] = '' Hi [/INST]''" by code_simp
  have b1: "is_llama_2 (snd llama_later) = Some True" by code_simp
  have b2: "template_name (snd llama_later) = Some ''llama-2-chat''" by code_simp
  have b3: "user_prompt_helper (snd llama_later) = Some '' [INST] {prompt} [/INST]''"
    by code_simp
  have b4: "length (conversation (snd llama_later)) = 3" by code_simp
  have b5: "format '' [INST] {prompt} [/INST]''
     [(''prompt'', py_strip [] @ py_strip ''Again''), (''input'', py_strip [])] =
     Inr '' [INST] Again [/INST]''" by code_simp
  have first: "add_to_conversation (snd llama_session) ''user'' ''Hi'' [] [] =
     (None, (snd llama_session)\<lparr>conversation :=
        conversation (snd llama_session) @ [Str '' Hi [/INST]'']\<rparr>)"
    using llama_first_user_turn [OF a1 a2 a3, of "[]" "''Hi''" "'' [INST] Hi [/INST]''" "[]"]
      a4 a5 a6 by simp
  have later: "add_to_conversation (snd llama_later) ''user'' ''Again'' [] [] =
     (None, (snd llama_later)\<lparr>conversation :=
        conversation (snd llama_later) @ [Str '' [INST] Again [/INST]'']\<rparr>)"
    using llama_first_user_turn
      [OF b1 b2 b3, of "[]" "''Again''" _ "[]" "'' [INST] Again [/INST]''"]
      b4 b5 by simp
  show ?thesis
    using a1 a2 a3 a4 a5 first b1 b2 b3 b4 b5 later by simp
qed

text \<open>
  C10. On that first user turn the removal is not limited to the marker the user
  sub-template puts in front: wherever the first \<open>" [INST]"\<close> of the rendered string
  stands (\<open>x\<close> before it holds no occurrence), it is deleted and the replacement goes
  on through the rest \<open>y\<close>, so each occurrence after it, the user's own text included,
  is deleted in turn.
\<close>

theorem llama_first_turn_removes_every_marker:
  assumes "is_llama_2 s = Some True"
    and "length (conversation s) = 1"
    and "user_prompt_helper s = Some u"
    and "format u [(''prompt'', py_strip preprompt @ py_strip text)] = Inr (x @ '' [INST]'' @ y)"
    and "\<not> sublist '' [INST]'' (x @ '' [INST'')"
  shows "add_to_conversation s ''user'' text preprompt inp =
     (None, s\<lparr>conversation := conversation s @ [Str (x @ py_replace y '' [INST]'' [])]\<rparr>)"
proof -
  have "py_replace (x @ '' [INST]'' @ y) '' [INST]'' [] = x @ [] @ py_replace y '' [INST]'' []"
    using assms(5) by (intro py_replace_first) simp_all
  with assms(1-4) show ?thesis
    by (simp add: add_to_conversation_def user_turn_def append_turn_def bind_err_def attr_def
        lower_user)
qed

theorem llama_first_turn_removes_every_marker_witness:
  "is_llama_2 (snd llama_session) = Some True \<and>
   length (conversation (snd llama_session)) = 1 \<and>
   user_prompt_helper (snd llama_session) = Some '' [INST] {prompt} [/INST]'' \<and>
   format '' [INST] {prompt} [/INST]''
     [(''prompt'', py_strip [] @ py_strip ''say [INST] twice [INST] ok'')] =
     Inr ([] @ '' [INST]'' @ '' say [INST] twice [INST] ok [/INST]'') \<and>
   \<not> sublist '' [INST]'' ([] @ '' [INST'') \<and>
   add_to_conversation (snd llama_session) ''user'' ''say [INST] twice [INST] ok'' [] [] =
     (None, (snd llama_session)\<lparr>conversation :=
        conversation (snd llama_session) @ [Str '' say twice ok [/INST]'']\<rparr>)"
proof -
  have a1: "is_llama_2 (snd llama_session) = Some True" by code_simp
  have a2: "length (conversation (snd llama_session)) = 1" by code_simp
  have a3: "user_prompt_helper (snd llama_session) = Some '' [INST] {prompt} [/INST]''"
    by code_simp
  have a4: "format '' [INST] {prompt} [/INST]''
     [(''prompt'', py_strip [] @ py_strip ''say [INST] twice [INST] ok'')] =
     Inr ([] @ '' [INST]'' @ '' say [INST] twice [INST] ok [/INST]'')" by code_simp
  have a5: "\<not> sublist '' [INST]'' ([] @ '' [INST'')" by code_simp
  have a6: "[] @ py_replace '' say [INST] twice [INST] ok [/INST]'' '' [INST]'' [] =
     '' say twice ok [/INST]''" by code_simp
  have "add_to_conversation (snd llama_session) ''user'' ''say [INST] twice [INST] ok'' [] [] =
     (None, (snd llama_session)\<lparr>conversation :=
        conversation (snd llama_session) @
          [Str ([] @ py_replace '' say [INST] twice [INST] ok [/INST]'' '' [INST]'' [])]\<rparr>)"
    by (rule llama_first_turn_removes_every_marker [OF a1 a2 a3 a4 a5])
  then have "add_to_conversation (snd llama_session) ''user'' ''say [INST] twice [INST] ok'' [] [] =
     (None, (snd llama_session)\<lparr>conversation :=
        conversation (snd llama_session) @ [Str '' say twice ok [/INST]'']\<rparr>)"
    by (simp only: a6)
  with a1 a2 a3 a4 a5 show ?thesis by blast
qed

section \<open>Reducing the history\<close>

lemma reduce_length_conversation:
  "conversation (reduce_length s k) =
     (let xs = conversation s; n = int (length xs)
      in if n = 0 then []
         else if n = 1 \<and> 1 < k * 2 - 1 then xs @ xs
         else if n < k * 2 - 1 then xs
         else if 0 < k then take 1 xs @ drop (nat (n - (k * 2 - 1))) xs
         else take 1 xs @ drop (nat (1 - k * 2)) xs)"
proof (cases "conversation s")
  case Nil
  then show ?thesis by (simp add: reduce_length_def slice_from_def Let_def)
next
  case (Cons x xs)
  then show ?thesis
    by (simp add: reduce_length_def slice_from_def Let_def)
qed

lemma reduce_length_only_conversation:
  "reduce_length s k = s\<lparr>conversation := conversation (reduce_length s k)\<rparr>"
  by (simp add: reduce_length_def Let_def)

lemma reduce_length_twice_only_conversation:
  "reduce_length (reduce_length s k) k =
   s\<lparr>conversation := conversation (reduce_length (reduce_length s k) k)\<rparr>"
  by (simp add: reduce_length_def Let_def)

lemma reduce_length_idem_conversation:
  assumes "int (length (conversation s)) - 1 \<le> k * 2 - 1"
  shows "conversation (reduce_length (reduce_length s k) k) = conversation (reduce_length s k)"
proof (cases "conversation s")
  case Nil
  then show ?thesis by (simp add: reduce_length_conversation)
next
  case (Cons x xs)
  note outer = Cons
  show ?thesis
  proof (cases xs)
    case Nil
    show ?thesis
    proof (cases "k = 1")
      case True
      with Nil outer show ?thesis
        by (simp add: reduce_length_conversation Let_def)
    next
      case False
      with Nil outer assms show ?thesis
        by (simp add: reduce_length_conversation Let_def)
    qed
  next
    case (Cons y ys)
    with outer assms show ?thesis
      by (simp add: reduce_length_conversation Let_def)
  qed
qed

text \<open>
  Within the window, a second \<open>reduce_length(k)\<close> changes nothing any more.
\<close>

lemma reduce_length_idem_within_window:
  assumes "int (length (conversation s)) - 1 \<le> k * 2 - 1"
  shows "reduce_length (reduce_length s k) k = reduce_length s k"
  using reduce_length_idem_conversation [OF assms]
    reduce_length_twice_only_conversation [of s k] reduce_length_only_conversation [of s k]
  by simp

text \<open>
  C3. The first \<open>reduce_length\<close> is another matter. The window is clamped when
  \<open>len(conversation) < couple\<close>, not when \<open>len(conversation) - 1 < couple\<close>: a
  conversation of exactly \<open>couple\<close> elements (system, user, model with \<open>conv = 2\<close>)
  keeps its first element and then all of its elements, the first one again. A
  conversation of the system message alone, reduced with the default \<open>conv = 4\<close>,
  has the window clamped to \<open>0\<close>, and \<open>conversation[-0:]\<close> is the whole list.
\<close>

theorem reduce_length_repeats_system_message:
  "conversation (reduce_length (s\<lparr>conversation := [sys, u, m]\<rparr>) 2) = [sys, sys, u, m] \<and>
   conversation (reduce_length (s\<lparr>conversation := [sys]\<rparr>) 4) = [sys, sys]"
  by (simp add: reduce_length_def slice_from_def Let_def)

section \<open>Roles and the \<open>input\<close> argument\<close>

text \<open>
  C4. A role that is none of \<open>system\<close>, \<open>user\<close> and \<open>model\<close> in lower case, given
  without \<open>input\<close>, raises nothing and leaves the instance as it was: the
  \<open>ValueError\<close> of the docstring is never raised.
\<close>

theorem add_unknown_role_is_silent:
  "py_lower role \<noteq> ''system'' \<Longrightarrow> py_lower role \<noteq> ''user'' \<Longrightarrow> py_lower role \<noteq> ''model''
   \<Longrightarrow> add_to_conversation s role text preprompt [] = (None, s)"
  by (simp add: add_to_conversation_def)

theorem add_unknown_role_is_silent_witness:
  "py_lower ''assistant'' \<noteq> ''system'' \<and> py_lower ''assistant'' \<noteq> ''user'' \<and>
   py_lower ''assistant'' \<noteq> ''model'' \<and>
   add_to_conversation (snd (scenario_A ''gpt2'' [] [])) ''assistant'' ''Hello!'' [] [] =
     (None, snd (scenario_A ''gpt2'' [] []))"
proof -
  have a: "py_lower ''assistant'' \<noteq> ''system''" by code_simp
  have b: "py_lower ''assistant'' \<noteq> ''user''" by code_simp
  have c: "py_lower ''assistant'' \<noteq> ''model''" by code_simp
  show ?thesis
    using a b c add_unknown_role_is_silent [OF a b c] by simp
qed

text \<open>
  C5. The guard on \<open>input\<close> compares the role as it was written: any role other than
  the exact string \<open>user\<close>, given with a non-empty \<open>input\<close>, raises \<open>ValueError\<close> and
  changes nothing. That includes \<open>User\<close>, which the branches below the guard would
  have taken as a user turn.
\<close>

theorem input_with_other_spelling_of_user_raises:
  "role \<noteq> ''user'' \<Longrightarrow> inp \<noteq> [] \<Longrightarrow>
   add_to_conversation s role text preprompt inp =
     (Some (ValueError ''Input parameter can only be used with user role''), s)"
  by (simp add: add_to_conversation_def)

theorem input_with_other_spelling_of_user_raises_witness:
  "py_lower ''User'' = ''user'' \<and> ''User'' \<noteq> ''user'' \<and> ''x'' \<noteq> [] \<and>
   add_to_conversation (snd (alpaca_session ''gpt2'')) ''User'' ''Hi'' [] ''x'' =
     (Some (ValueError ''Input parameter can only be used with user role''),
      snd (alpaca_session ''gpt2''))"
proof -
  have a: "py_lower ''User'' = ''user''" by code_simp
  have b: "''User'' \<noteq> ''user''" by simp
  have c: "''x'' \<noteq> []" by simp
  show ?thesis
    using a b c input_with_other_spelling_of_user_raises [OF b c] by simp
qed

section \<open>The \<open>input\<close> sub-template\<close>

text \<open>
  C6. \<open>generate_one_shot_prompt\<close> decides on \<open>model_name\<close>, the constructor's
  argument, and never reads \<open>template_name\<close>: unless the model name is \<open>alpaca\<close>,
  the \<open>input\<close> argument has no effect at all, whatever template is bound.
\<close>

theorem one_shot_input_needs_model_name:
  "model_name s \<noteq> ''alpaca'' \<Longrightarrow>
   generate_one_shot_prompt s user_prompt preprompt system_prompt inp =
   generate_one_shot_prompt s user_prompt preprompt system_prompt []"
  by (simp add: generate_one_shot_prompt_def Let_def)

theorem one_shot_input_needs_model_name_witness:
  "model_name (snd (alpaca_session ''gpt2'')) \<noteq> ''alpaca'' \<and>
   template_name (snd (alpaca_session ''gpt2'')) = Some ''alpaca'' \<and>
   generate_one_shot_prompt (snd (alpaca_session ''gpt2'')) ''Q'' [] [] ''ctx'' =
     (Inr (''Be brief.'' @ newline @ newline @ ''### Instruction:'' @ newline @ ''Q''
           @ newline @ newline @ ''### Response:''),
      snd (alpaca_session ''gpt2''))"
proof -
  have a: "model_name (snd (alpaca_session ''gpt2'')) \<noteq> ''alpaca''" by code_simp
  have b: "template_name (snd (alpaca_session ''gpt2'')) = Some ''alpaca''" by code_simp
  have c: "generate_one_shot_prompt (snd (alpaca_session ''gpt2'')) ''Q'' [] [] [] =
     (Inr (''Be brief.'' @ newline @ newline @ ''### Instruction:'' @ newline @ ''Q''
           @ newline @ newline @ ''### Response:''),
      snd (alpaca_session ''gpt2''))" by code_simp
  have "generate_one_shot_prompt (snd (alpaca_session ''gpt2'')) ''Q'' [] [] ''ctx'' =
     generate_one_shot_prompt (snd (alpaca_session ''gpt2'')) ''Q'' [] [] []"
    by (rule one_shot_input_needs_model_name [OF a])
  with a b c show ?thesis by simp
qed

text \<open>
  C7. With \<open>alpaca\<close> bound, a user turn with a non-empty \<open>input\<close> formats the
  \<open>input\<close> sub-template with \<open>prompt\<close> alone: the placeholder \<open>{input}\<close> of that
  sub-template finds no argument, \<open>str.format\<close> raises \<open>KeyError\<close>, and no turn is
  appended.
\<close>

theorem alpaca_input_turn_raises_key_error:
  "fst (alpaca_session name) = None \<and>
   template_name (snd (alpaca_session name)) = Some ''alpaca'' \<and>
   add_to_conversation (snd (alpaca_session name)) ''user'' ''Q'' [] ''ctx'' =
     (Some (KeyError ''input''), snd (alpaca_session name))"
  by code_simp

section \<open>Binding a template\<close>

text \<open>
  C8. When the identifier, in lower case, is not a key of the store, \<open>load_template\<close>
  raises \<open>ValueError("Template not found.")\<close> and the instance is exactly as before:
  the four sub-templates, \<open>template_name\<close>, \<open>is_llama_2\<close> and the conversation.
\<close>

theorem load_template_unknown:
  "map_of (model_templates s) (py_lower template) = None \<Longrightarrow>
   load_template s template = (Some (ValueError ''Template not found.''), s)"
  by (simp add: load_template_def)

theorem load_template_unknown_witness:
  "map_of (model_templates (snd (scenario_A ''gpt2'' [] []))) (py_lower ''Alpaca'') = None \<and>
   load_template (snd (scenario_A ''gpt2'' [] [])) ''Alpaca'' =
     (Some (ValueError ''Template not found.''), snd (scenario_A ''gpt2'' [] []))"
proof -
  have a: "map_of (model_templates (snd (scenario_A ''gpt2'' [] []))) (py_lower ''Alpaca'') = None"
    by code_simp
  show ?thesis
    using a load_template_unknown [OF a] by simp
qed

text \<open>
  C9. \<open>custom_template\<close> assigns the four sub-templates and nothing else. On a fresh
  instance \<open>template_name\<close> is still unassigned, so \<open>set_system_prompt\<close> (after it
  has emptied the conversation and stored the text), a user turn, a model turn and
  \<open>generate_prompt\<close> all raise \<open>AttributeError\<close>.
\<close>

theorem custom_template_alone_is_unusable:
  "set_system_prompt (custom_template (init name store) st rt ut it) txt =
     (Some (AttributeError ''template_name''),
      (custom_template (init name store) st rt ut it)\<lparr>system_text := txt\<rparr>) \<and>
   add_to_conversation (custom_template (init name store) st rt ut it) ''user'' text pre [] =
     (Some (AttributeError ''template_name''), custom_template (init name store) st rt ut it) \<and>
   add_to_conversation (custom_template (init name store) st rt ut it) ''model'' text pre [] =
     (Some (AttributeError ''template_name''), custom_template (init name store) st rt ut it) \<and>
   generate_prompt (custom_template (init name store) st rt ut it) =
     Inl (AttributeError ''template_name'')"
  by code_simp

end
